theory Spec2Isabelle
  imports Main
begin

section \<open>The syntax tree of a call\<close>

text \<open>
  The module \<^verbatim>\<open>sagemaker/cli/compatibility/v2/modifiers/framework_version.py\<close> works on
  \<^verbatim>\<open>ast.Call\<close> nodes, as the interpreters from CPython 3.8 on build them: every literal
  is an \<^verbatim>\<open>ast.Constant\<close>, \<^verbatim>\<open>ast.Str(s=x)\<close> builds one, and the field \<^verbatim>\<open>s\<close> that the module
  reads is the constant's value, whatever its type.

  A character is a code point below 256; strings with other characters are outside the
  model.
\<close>

text \<open>
  The value of a literal. Of a number (\<^verbatim>\<open>int\<close>, \<^verbatim>\<open>float\<close>, \<^verbatim>\<open>complex\<close>) the module can
  observe only whether it is zero (its truth value), so \<open>PyNumber\<close> carries just that:
  \<open>PyNumber True\<close> is a number that is not zero.
\<close>

datatype pyvalue =
    PyNone
  | PyStr string
  | PyBytes string
  | PyBool bool
  | PyNumber bool
  | PyEllipsis

text \<open>
  Of an expression the module asks whether it is an \<^verbatim>\<open>ast.Name\<close> or an
  \<^verbatim>\<open>ast.Attribute\<close>, and of a keyword's value it reads the field \<^verbatim>\<open>s\<close>. \<open>Other\<close> stands
  for the node classes of computed expressions (calls, subscripts, operators,
  f-strings, ...): none of them has a field \<^verbatim>\<open>s\<close>, and neither have \<^verbatim>\<open>ast.Name\<close> and
  \<^verbatim>\<open>ast.Attribute\<close>.
\<close>

datatype expr =
    Name string
  | Attribute expr string
  | Constant pyvalue
  | Other

text \<open>\<^verbatim>\<open>ast.Str(s=x)\<close> for a string \<open>x\<close>: a string literal.\<close>

abbreviation Str :: "string \<Rightarrow> expr" where
  "Str x \<equiv> Constant (PyStr x)"

text \<open>
  \<^verbatim>\<open>ast.keyword(arg, value)\<close>: \<open>arg\<close> is \<open>None\<close> for a \<^verbatim>\<open>**kwargs\<close> argument.
\<close>

datatype keyword = keyword (arg: "string option") (kw_value: expr)

record call =
  func :: expr
  args :: "expr list"
  keywords_of :: "keyword list"

text \<open>The exceptions the module can raise.\<close>

datatype error = AttributeError | KeyError | TypeError | ValueError

section \<open>Module constants\<close>

definition FRAMEWORK_ARG :: string where
  "FRAMEWORK_ARG = ''framework_version''"

definition PY_ARG :: string where
  "PY_ARG = ''py_version''"

text \<open>The dictionary, in insertion order.\<close>

definition FRAMEWORK_DEFAULTS :: "(string \<times> string) list" where
  "FRAMEWORK_DEFAULTS =
     [(''Chainer'', ''4.1.0''),
      (''MXNet'', ''1.2.0''),
      (''PyTorch'', ''0.4.0''),
      (''SKLearn'', ''0.20.0''),
      (''TensorFlow'', ''1.11.0'')]"

definition FRAMEWORK_CLASSES :: "string list" where
  "FRAMEWORK_CLASSES = map fst FRAMEWORK_DEFAULTS"

definition MODEL_CLASSES :: "string list" where
  "MODEL_CLASSES = map (\<lambda>fw. fw @ ''Model'') FRAMEWORK_CLASSES"

text \<open>
  \<^verbatim>\<open>str.lower\<close>: the capital letters below 256 are \<^verbatim>\<open>A\<close> to \<^verbatim>\<open>Z\<close> and the code points
  192 to 222 but 215 (the multiplication sign).
\<close>

definition lower_char :: "char \<Rightarrow> char" where
  "lower_char c =
     (let n = (of_char c :: nat)
      in if 65 \<le> n \<and> n \<le> 90 \<or> 192 \<le> n \<and> n \<le> 222 \<and> n \<noteq> 215
         then char_of (n + 32) else c)"

definition lower :: "string \<Rightarrow> string" where
  "lower s = map lower_char s"

definition FRAMEWORK_MODULES :: "string list" where
  "FRAMEWORK_MODULES = map lower FRAMEWORK_CLASSES"

definition FRAMEWORK_SUBMODULES :: "string list" where
  "FRAMEWORK_SUBMODULES = [''model'', ''estimator'']"

section \<open>String and list operations of Python\<close>

text \<open>\<^verbatim>\<open>s.endswith(t)\<close>.\<close>

definition endswith :: "string \<Rightarrow> string \<Rightarrow> bool" where
  "endswith s t = (length t \<le> length s \<and> drop (length s - length t) s = t)"

text \<open>\<^verbatim>\<open>s.find(t)\<close>: the lowest index at which \<open>t\<close> occurs in \<open>s\<close>, and \<open>-1\<close> if none.\<close>

fun find_from :: "nat \<Rightarrow> string \<Rightarrow> string \<Rightarrow> int" where
  "find_from i [] t = (if t = [] then int i else - 1)"
| "find_from i (c # cs) t =
     (if take (length t) (c # cs) = t then int i else find_from (Suc i) cs t)"

definition find_str :: "string \<Rightarrow> string \<Rightarrow> int" where
  "find_str s t = find_from 0 s t"

text \<open>The slice \<^verbatim>\<open>s[:k]\<close>; a negative \<open>k\<close> counts from the end.\<close>

definition slice_to :: "string \<Rightarrow> int \<Rightarrow> string" where
  "slice_to s k = (if k < 0 then take (nat (int (length s) + k)) s else take (nat k) s)"

text \<open>\<^verbatim>\<open>s.split(d)\<close> for a separator of one character.\<close>

fun split :: "char \<Rightarrow> string \<Rightarrow> string list" where
  "split d [] = [[]]"
| "split d (c # cs) =
     (if c = d then [] # split d cs
      else (case split d cs of [] \<Rightarrow> [[c]] | w # ws \<Rightarrow> (c # w) # ws))"

text \<open>
  \<^verbatim>\<open>int(s)\<close>, base ten: white space around the literal is dropped, a sign may come
  first, and the digits may be grouped by single underscores. Everything else raises
  \<^verbatim>\<open>ValueError\<close>. The white space that \<^verbatim>\<open>int\<close> drops is the six characters of ASCII and,
  below 256, the code points 133 and 160; the decimal digits below 256 are \<^verbatim>\<open>0\<close> to
  \<^verbatim>\<open>9\<close>. The number of digits is not bounded, as in the interpreters the module was
  written for.
\<close>

definition is_space :: "char \<Rightarrow> bool" where
  "is_space c =
     (c \<in> set [CHR '' '', CHR 0x09, CHR 0x0A, CHR 0x0B, CHR 0x0C, CHR 0x0D, CHR 0x85, CHR 0xA0])"

definition strip :: "string \<Rightarrow> string" where
  "strip s = rev (dropWhile is_space (rev (dropWhile is_space s)))"

definition is_digit :: "char \<Rightarrow> bool" where
  "is_digit c = (let n = (of_char c :: nat) in 48 \<le> n \<and> n \<le> 57)"

fun grouped_digits :: "string \<Rightarrow> bool" where
  "grouped_digits [] = False"
| "grouped_digits [c] = is_digit c"
| "grouped_digits (c # d # r) =
     (is_digit c \<and> (if d = CHR ''_'' then grouped_digits r else grouped_digits (d # r)))"

definition digit_val :: "char \<Rightarrow> nat" where
  "digit_val c = of_char c - 48"

definition digits_val :: "string \<Rightarrow> nat" where
  "digits_val s = foldl (\<lambda>a c. 10 * a + digit_val c) 0 s"

definition py_int :: "string \<Rightarrow> error + int" where
  "py_int s =
     (let t = strip s;
          (sign, body) = (case t of
              [] \<Rightarrow> (1, [])
            | c # r \<Rightarrow> if c = CHR ''+'' then (1, r)
                       else if c = CHR ''-'' then (- 1, r)
                       else (1, t))
      in if grouped_digits body
         then Inr (sign * int (digits_val (filter (\<lambda>c. c \<noteq> CHR ''_'') body)))
         else Inl ValueError)"

text \<open>The list comprehension \<^verbatim>\<open>[int(s) for s in xs]\<close>: the first failure is raised.\<close>

fun int_all :: "string list \<Rightarrow> error + int list" where
  "int_all [] = Inr []"
| "int_all (s # ss) =
     (case py_int s of
        Inl e \<Rightarrow> Inl e
      | Inr n \<Rightarrow> (case int_all ss of Inl e \<Rightarrow> Inl e | Inr ns \<Rightarrow> Inr (n # ns)))"

text \<open>
  \<^verbatim>\<open>xs < ys\<close> on lists of integers: the first position where the lists differ decides;
  if there is none, the shorter list is the smaller.
\<close>

fun list_lt :: "int list \<Rightarrow> int list \<Rightarrow> bool" where
  "list_lt [] [] = False"
| "list_lt [] (y # ys) = True"
| "list_lt (x # xs) [] = False"
| "list_lt (x # xs) (y # ys) = (if x \<noteq> y then x < y else list_lt xs ys)"

section \<open>The functions of the module\<close>

text \<open>
  \<^verbatim>\<open>_arg_value\<close>. A node is always true in a Boolean context, so \<^verbatim>\<open>kw.value\<close> in the
  condition never fails. \<^verbatim>\<open>kw.value.s\<close> is the value of a literal, of whatever type, and
  raises \<^verbatim>\<open>AttributeError\<close> on any other node. The function returns \<^verbatim>\<open>None\<close> when no
  keyword has the name, and also when the first that has it is the literal \<^verbatim>\<open>None\<close>.
\<close>

fun arg_value :: "keyword list \<Rightarrow> string \<Rightarrow> error + pyvalue" where
  "arg_value [] a = Inr PyNone"
| "arg_value (kw # kws) a =
     (if arg kw = Some a
      then (case kw_value kw of Constant v \<Rightarrow> Inr v | _ \<Rightarrow> Inl AttributeError)
      else arg_value kws a)"

text \<open>The truth value of a value, as \<^verbatim>\<open>if x:\<close> and \<^verbatim>\<open>not x\<close> take it.\<close>

fun truthy :: "pyvalue \<Rightarrow> bool" where
  "truthy PyNone = False"
| "truthy (PyStr x) = (x \<noteq> [])"
| "truthy (PyBytes x) = (x \<noteq> [])"
| "truthy (PyBool b) = b"
| "truthy (PyNumber nonzero) = nonzero"
| "truthy PyEllipsis = True"

text \<open>
  \<^verbatim>\<open>_tf_py_version_default\<close>. Only a string has a method \<^verbatim>\<open>split\<close> that takes the string
  \<^verbatim>\<open>"."\<close>: the method of \<^verbatim>\<open>bytes\<close> raises \<^verbatim>\<open>TypeError\<close> on it, and the other values have
  no such attribute.
\<close>

definition tf_py_version_default :: "pyvalue \<Rightarrow> error + string" where
  "tf_py_version_default framework_version =
     (if \<not> truthy framework_version then Inr ''py2''
      else (case framework_version of
              PyStr x \<Rightarrow>
                (case int_all (split CHR ''.'' x) of
                   Inl e \<Rightarrow> Inl e
                 | Inr version \<Rightarrow>
                     if list_lt version [1, 12] then Inr ''py2''
                     else if list_lt version [2, 2] then Inr ''py3''
                     else Inr ''py37'')
            | PyBytes x \<Rightarrow> Inl TypeError
            | _ \<Rightarrow> Inl AttributeError))"

text \<open>\<^verbatim>\<open>_py_version_defaults\<close>: a string, or \<^verbatim>\<open>None\<close>.\<close>

definition py_version_defaults :: "string \<Rightarrow> pyvalue \<Rightarrow> bool \<Rightarrow> error + pyvalue" where
  "py_version_defaults framework framework_version is_model =
     (if framework \<in> set [''Chainer'', ''PyTorch''] then Inr (PyStr ''py3'')
      else if framework = ''SKLearn'' \<and> \<not> is_model then Inr (PyStr ''py3'')
      else if framework = ''MXNet'' then Inr (PyStr ''py2'')
      else if framework = ''TensorFlow'' \<and> \<not> is_model
           then (case tf_py_version_default framework_version of
                   Inl e \<Rightarrow> Inl e
                 | Inr p \<Rightarrow> Inr (PyStr p))
      else Inr PyNone)"

text \<open>\<^verbatim>\<open>_framework_from_node\<close>.\<close>

fun callee_name :: "expr \<Rightarrow> string" where
  "callee_name (Name ident) = ident"
| "callee_name (Attribute v a) = a"
| "callee_name _ = []"

definition framework_from_node :: "call \<Rightarrow> string \<times> bool" where
  "framework_from_node node =
     (let framework = callee_name (func node);
          is_model = endswith framework ''Model''
      in if is_model then (slice_to framework (find_str framework ''Model''), is_model)
         else (framework, is_model))"

text \<open>\<^verbatim>\<open>_is_in_framework_module\<close>, on the expression it is given.\<close>

fun is_in_framework_module :: "expr \<Rightarrow> bool" where
  "is_in_framework_module (Attribute (Attribute (Name ident) a) b) =
     (a \<in> set FRAMEWORK_MODULES \<and> ident = ''sagemaker'')"
| "is_in_framework_module _ = False"

text \<open>\<^verbatim>\<open>_is_named_constructor\<close>.\<close>

fun is_named_constructor_func :: "expr \<Rightarrow> string list \<Rightarrow> bool" where
  "is_named_constructor_func (Name ident) names = (ident \<in> set names)"
| "is_named_constructor_func (Attribute v a) names =
     (if \<not> a \<in> set names then False
      else (case v of
              Attribute w b \<Rightarrow>
                if b \<in> set FRAMEWORK_SUBMODULES then is_in_framework_module v
                else is_in_framework_module (Attribute v a)
            | _ \<Rightarrow> is_in_framework_module (Attribute v a)))"
| "is_named_constructor_func _ names = False"

definition is_named_constructor :: "call \<Rightarrow> string list \<Rightarrow> bool" where
  "is_named_constructor node names = is_named_constructor_func (func node) names"

text \<open>\<^verbatim>\<open>_version_args_needed\<close>.\<close>

definition version_args_needed :: "call \<Rightarrow> string \<Rightarrow> error + bool" where
  "version_args_needed node image_arg =
     (case arg_value (keywords_of node) image_arg of
        Inl e \<Rightarrow> Inl e
      | Inr image_name \<Rightarrow>
          if truthy image_name then Inr False
          else (case arg_value (keywords_of node) FRAMEWORK_ARG of
                  Inl e \<Rightarrow> Inl e
                | Inr framework_version \<Rightarrow>
                    if framework_version = PyNone then Inr True
                    else
                      (let (framework, is_model) = framework_from_node node in
                       case py_version_defaults framework framework_version is_model of
                         Inl e \<Rightarrow> Inl e
                       | Inr expecting_py_version \<Rightarrow>
                           if truthy expecting_py_version
                           then (case arg_value (keywords_of node) PY_ARG of
                                   Inl e \<Rightarrow> Inl e
                                 | Inr py_version \<Rightarrow> Inr (py_version = PyNone))
                           else Inr False)))"

text \<open>\<^verbatim>\<open>FrameworkVersionEnforcer.node_should_be_modified\<close>.\<close>

definition node_should_be_modified :: "call \<Rightarrow> error + bool" where
  "node_should_be_modified node =
     (if is_named_constructor node FRAMEWORK_CLASSES
      then version_args_needed node ''image_name''
      else if is_named_constructor node MODEL_CLASSES
      then version_args_needed node ''image''
      else Inr False)"

text \<open>
  \<^verbatim>\<open>FrameworkVersionEnforcer.modify_node\<close>. The method changes the node in place and
  returns nothing, so the model returns the outcome together with the node as the
  method leaves it: a keyword appended before an exception stays appended.
  \<open>append_keyword node a v\<close> is
  \<^verbatim>\<open>node.keywords.append(ast.keyword(arg=a, value=ast.Str(s=v)))\<close>.
\<close>

definition append_keyword :: "call \<Rightarrow> string \<Rightarrow> pyvalue \<Rightarrow> call" where
  "append_keyword node a v =
     node\<lparr>keywords_of := keywords_of node @ [keyword (Some a) (Constant v)]\<rparr>"

definition modify_node :: "call \<Rightarrow> (error + unit) \<times> call" where
  "modify_node node =
     (let (framework, is_model) = framework_from_node node in
      case arg_value (keywords_of node) FRAMEWORK_ARG of
        Inl e \<Rightarrow> (Inl e, node)
      | Inr fv \<Rightarrow>
          (case (if fv = PyNone
                 then (case map_of FRAMEWORK_DEFAULTS framework of
                         None \<Rightarrow> Inl KeyError
                       | Some v \<Rightarrow> Inr (PyStr v, append_keyword node FRAMEWORK_ARG (PyStr v)))
                 else Inr (fv, node)) of
             Inl e \<Rightarrow> (Inl e, node)
           | Inr (framework_version, node1) \<Rightarrow>
               (case arg_value (keywords_of node1) PY_ARG of
                  Inl e \<Rightarrow> (Inl e, node1)
                | Inr py \<Rightarrow>
                    if py = PyNone
                    then (case py_version_defaults framework framework_version is_model of
                            Inl e \<Rightarrow> (Inl e, node1)
                          | Inr py_version \<Rightarrow>
                              if truthy py_version
                              then (Inr (), append_keyword node1 PY_ARG py_version)
                              else (Inr (), node1))
                    else (Inr (), node1))))"

text \<open>
  \<^verbatim>\<open>".".join(cs)\<close>, to write a version string from its components.
\<close>

fun dotted :: "string list \<Rightarrow> string" where
  "dotted [] = []"
| "dotted [c] = c"
| "dotted (c # d # r) = c @ CHR ''.'' # dotted (d # r)"

section \<open>The constants, evaluated\<close>

lemma FRAMEWORK_CLASSES_eq:
  "FRAMEWORK_CLASSES = [''Chainer'', ''MXNet'', ''PyTorch'', ''SKLearn'', ''TensorFlow'']"
  by (simp add: FRAMEWORK_CLASSES_def FRAMEWORK_DEFAULTS_def)

lemma MODEL_CLASSES_eq:
  "MODEL_CLASSES =
     [''ChainerModel'', ''MXNetModel'', ''PyTorchModel'', ''SKLearnModel'', ''TensorFlowModel'']"
  by (simp add: MODEL_CLASSES_def FRAMEWORK_CLASSES_eq)

lemma FRAMEWORK_MODULES_eq:
  "FRAMEWORK_MODULES = [''chainer'', ''mxnet'', ''pytorch'', ''sklearn'', ''tensorflow'']"
  by code_simp

lemma arg_names_distinct:
  "FRAMEWORK_ARG \<noteq> PY_ARG" "PY_ARG \<noteq> FRAMEWORK_ARG"
  "''image_name'' \<noteq> FRAMEWORK_ARG" "''image_name'' \<noteq> PY_ARG"
  "''image'' \<noteq> FRAMEWORK_ARG" "''image'' \<noteq> PY_ARG"
  "FRAMEWORK_ARG \<noteq> ''image_name''" "PY_ARG \<noteq> ''image_name''"
  "FRAMEWORK_ARG \<noteq> ''image''" "PY_ARG \<noteq> ''image''"
  by (simp_all add: FRAMEWORK_ARG_def PY_ARG_def)

section \<open>Looking a keyword up\<close>

lemma arg_value_absent:
  "Some a \<notin> arg ` set ks \<Longrightarrow> arg_value ks a = Inr PyNone"
  by (induction ks) auto

lemma arg_value_None_iff:
  "arg_value ks a = Inr PyNone \<longleftrightarrow>
     (case find (\<lambda>kw. arg kw = Some a) ks of
        None \<Rightarrow> True
      | Some kw \<Rightarrow> kw_value kw = Constant PyNone)"
  by (induction ks) (auto split: expr.splits)

lemma arg_value_None_no_literal:
  assumes "Constant PyNone \<notin> kw_value ` set ks"
  shows "arg_value ks a = Inr PyNone \<longleftrightarrow> Some a \<notin> arg ` set ks"
  using assms by (induction ks) (auto split: expr.splits)

lemma arg_value_append:
  "arg_value (ks @ ks') a =
     (if Some a \<in> arg ` set ks then arg_value ks a else arg_value ks' a)"
  by (induction ks) (auto split: expr.splits)

lemma arg_value_append_kw:
  "arg_value (ks @ [keyword (Some b) (Constant v)]) a =
     (if Some a \<in> arg ` set ks then arg_value ks a
      else if b = a then Inr v else Inr PyNone)"
  by (simp add: arg_value_append)

lemma arg_value_literal:
  assumes "keyword (Some a) (Constant v) \<in> set ks"
    and "\<forall>kw\<in>set ks. arg kw = Some a \<longrightarrow> kw = keyword (Some a) (Constant v)"
  shows "arg_value ks a = Inr v"
  using assms by (induction ks) auto

lemma framework_from_node_append [simp]:
  "framework_from_node (append_keyword node a s) = framework_from_node node"
  by (simp add: framework_from_node_def append_keyword_def)

lemma is_named_constructor_append [simp]:
  "is_named_constructor (append_keyword node a s) names = is_named_constructor node names"
  by (simp add: is_named_constructor_def append_keyword_def)

lemma keywords_of_append [simp]:
  "keywords_of (append_keyword node a v) = keywords_of node @ [keyword (Some a) (Constant v)]"
  by (simp add: append_keyword_def)

section \<open>The call-site matcher\<close>

lemma is_in_framework_module_iff:
  "is_in_framework_module e \<longleftrightarrow>
     (\<exists>m b. e = Attribute (Attribute (Name ''sagemaker'') m) b \<and> m \<in> set FRAMEWORK_MODULES)"
  by (induction e rule: is_in_framework_module.induct) auto

lemma is_named_constructor_func_iff:
  "is_named_constructor_func e names \<longleftrightarrow>
     (\<exists>c. e = Name c \<and> c \<in> set names) \<or>
     (\<exists>m c. e = Attribute (Attribute (Name ''sagemaker'') m) c \<and>
        m \<in> set FRAMEWORK_MODULES \<and> c \<in> set names) \<or>
     (\<exists>m s c. e = Attribute (Attribute (Attribute (Name ''sagemaker'') m) s) c \<and>
        m \<in> set FRAMEWORK_MODULES \<and> s \<in> set FRAMEWORK_SUBMODULES \<and> c \<in> set names)"
proof (cases e)
  case (Name c)
  then show ?thesis by simp
next
  case outer: (Attribute v a)
  have sub: "m \<notin> set FRAMEWORK_SUBMODULES" if "m \<in> set FRAMEWORK_MODULES" for m
    using that by (auto simp: FRAMEWORK_MODULES_eq FRAMEWORK_SUBMODULES_def)
  show ?thesis
  proof (cases v)
    case (Attribute w b)
    with outer sub show ?thesis
      by (auto simp: is_in_framework_module_iff)
  qed (use outer in auto)
qed simp_all

text \<open>
  C5. The matcher accepts exactly three shapes of callee: a bare name of the candidate
  list; \<^verbatim>\<open>sagemaker.<module>.<Class>\<close>; and \<^verbatim>\<open>sagemaker.<module>.<submodule>.<Class>\<close>
  with the submodule \<^verbatim>\<open>model\<close> or \<^verbatim>\<open>estimator\<close>; the module is a framework name in
  lower case and the class is in the candidate list. So \<^verbatim>\<open>TensorFlow(...)\<close>,
  \<^verbatim>\<open>sagemaker.tensorflow.TensorFlow(...)\<close> and
  \<^verbatim>\<open>sagemaker.tensorflow.estimator.TensorFlow(...)\<close> match, and
  \<^verbatim>\<open>other.tensorflow.TensorFlow(...)\<close> and
  \<^verbatim>\<open>sagemaker.tensorflow.wrongsubmodule.TensorFlow(...)\<close> do not.
\<close>

theorem matcher_shapes:
  "(is_named_constructor node names \<longleftrightarrow>
      (\<exists>c. func node = Name c \<and> c \<in> set names) \<or>
      (\<exists>m c. func node = Attribute (Attribute (Name ''sagemaker'') m) c \<and>
         m \<in> set [''chainer'', ''mxnet'', ''pytorch'', ''sklearn'', ''tensorflow''] \<and>
         c \<in> set names) \<or>
      (\<exists>m s c. func node = Attribute (Attribute (Attribute (Name ''sagemaker'') m) s) c \<and>
         m \<in> set [''chainer'', ''mxnet'', ''pytorch'', ''sklearn'', ''tensorflow''] \<and>
         s \<in> set [''model'', ''estimator''] \<and> c \<in> set names)) \<and>
   is_named_constructor \<lparr>func = Name ''TensorFlow'', args = as, keywords_of = ks\<rparr>
     FRAMEWORK_CLASSES \<and>
   is_named_constructor
     \<lparr>func = Attribute (Attribute (Name ''sagemaker'') ''tensorflow'') ''TensorFlow'',
      args = as, keywords_of = ks\<rparr> FRAMEWORK_CLASSES \<and>
   is_named_constructor
     \<lparr>func = Attribute (Attribute (Attribute (Name ''sagemaker'') ''tensorflow'')
        ''estimator'') ''TensorFlow'', args = as, keywords_of = ks\<rparr> FRAMEWORK_CLASSES \<and>
   \<not> is_named_constructor
     \<lparr>func = Attribute (Attribute (Name ''other'') ''tensorflow'') ''TensorFlow'',
      args = as, keywords_of = ks\<rparr> FRAMEWORK_CLASSES \<and>
   \<not> is_named_constructor
     \<lparr>func = Attribute (Attribute (Attribute (Name ''sagemaker'') ''tensorflow'')
        ''wrongsubmodule'') ''TensorFlow'', args = as, keywords_of = ks\<rparr> FRAMEWORK_CLASSES"
proof -
  have shapes: "is_named_constructor node names \<longleftrightarrow>
      (\<exists>c. func node = Name c \<and> c \<in> set names) \<or>
      (\<exists>m c. func node = Attribute (Attribute (Name ''sagemaker'') m) c \<and>
         m \<in> set [''chainer'', ''mxnet'', ''pytorch'', ''sklearn'', ''tensorflow''] \<and>
         c \<in> set names) \<or>
      (\<exists>m s c. func node = Attribute (Attribute (Attribute (Name ''sagemaker'') m) s) c \<and>
         m \<in> set [''chainer'', ''mxnet'', ''pytorch'', ''sklearn'', ''tensorflow''] \<and>
         s \<in> set [''model'', ''estimator''] \<and> c \<in> set names)"
    unfolding is_named_constructor_def is_named_constructor_func_iff
      FRAMEWORK_MODULES_eq FRAMEWORK_SUBMODULES_def ..
  have examples:
    "is_named_constructor_func (Name ''TensorFlow'') FRAMEWORK_CLASSES"
    "is_named_constructor_func
       (Attribute (Attribute (Name ''sagemaker'') ''tensorflow'') ''TensorFlow'')
       FRAMEWORK_CLASSES"
    "is_named_constructor_func
       (Attribute (Attribute (Attribute (Name ''sagemaker'') ''tensorflow'') ''estimator'')
          ''TensorFlow'') FRAMEWORK_CLASSES"
    "\<not> is_named_constructor_func
       (Attribute (Attribute (Name ''other'') ''tensorflow'') ''TensorFlow'')
       FRAMEWORK_CLASSES"
    "\<not> is_named_constructor_func
       (Attribute (Attribute (Attribute (Name ''sagemaker'') ''tensorflow'')
          ''wrongsubmodule'') ''TensorFlow'') FRAMEWORK_CLASSES"
    by (simp_all add: FRAMEWORK_CLASSES_eq FRAMEWORK_MODULES_eq FRAMEWORK_SUBMODULES_def)
  from shapes examples show ?thesis
    by (simp add: is_named_constructor_def)
qed

section \<open>The framework of a call and its defaults\<close>

lemma named_constructor_callee:
  "is_named_constructor node names \<Longrightarrow> callee_name (func node) \<in> set names"
  unfolding is_named_constructor_def is_named_constructor_func_iff by auto

lemma named_constructor_shape:
  "is_named_constructor node names \<Longrightarrow>
     (\<exists>c. func node = Name c) \<or> (\<exists>v c. func node = Attribute v c)"
  unfolding is_named_constructor_def is_named_constructor_func_iff by auto

lemma framework_from_estimator:
  "callee_name (func node) \<in> set FRAMEWORK_CLASSES \<Longrightarrow>
     framework_from_node node = (callee_name (func node), False)"
  by (auto simp: FRAMEWORK_CLASSES_eq framework_from_node_def endswith_def)

lemma framework_from_model:
  "callee_name (func node) \<in> set MODEL_CLASSES \<Longrightarrow>
     fst (framework_from_node node) \<in> set FRAMEWORK_CLASSES \<and>
     snd (framework_from_node node) \<and>
     callee_name (func node) = fst (framework_from_node node) @ ''Model''"
  by (auto simp: MODEL_CLASSES_eq FRAMEWORK_CLASSES_eq framework_from_node_def endswith_def
        find_str_def slice_to_def)

lemma estimator_not_model:
  "c \<in> set FRAMEWORK_CLASSES \<Longrightarrow> c \<notin> set MODEL_CLASSES"
  by (auto simp: MODEL_CLASSES_eq FRAMEWORK_CLASSES_eq)

lemma defaults_table:
  "map_of FRAMEWORK_DEFAULTS ''Chainer'' = Some ''4.1.0''"
  "map_of FRAMEWORK_DEFAULTS ''MXNet'' = Some ''1.2.0''"
  "map_of FRAMEWORK_DEFAULTS ''PyTorch'' = Some ''0.4.0''"
  "map_of FRAMEWORK_DEFAULTS ''SKLearn'' = Some ''0.20.0''"
  "map_of FRAMEWORK_DEFAULTS ''TensorFlow'' = Some ''1.11.0''"
  by (simp_all add: FRAMEWORK_DEFAULTS_def)

lemma tf_default_of_table_version: "tf_py_version_default (PyStr ''1.11.0'') = Inr ''py2''"
  by code_simp

lemma py_version_defaults_simps:
  "py_version_defaults ''Chainer'' v im = Inr (PyStr ''py3'')"
  "py_version_defaults ''PyTorch'' v im = Inr (PyStr ''py3'')"
  "py_version_defaults ''MXNet'' v im = Inr (PyStr ''py2'')"
  "py_version_defaults ''SKLearn'' v False = Inr (PyStr ''py3'')"
  "py_version_defaults ''SKLearn'' v True = Inr PyNone"
  "py_version_defaults ''TensorFlow'' v True = Inr PyNone"
  "py_version_defaults ''TensorFlow'' v False =
     (case tf_py_version_default v of Inl e \<Rightarrow> Inl e | Inr p \<Rightarrow> Inr (PyStr p))"
  by (simp_all add: py_version_defaults_def)

lemma tf_py_version_default_nonempty:
  "tf_py_version_default v = Inr p \<Longrightarrow> p \<noteq> []"
  by (auto simp: tf_py_version_default_def split: if_splits sum.splits pyvalue.splits)

lemma py_version_defaults_result:
  "py_version_defaults fw v im = Inr d \<Longrightarrow> d = PyNone \<or> (\<exists>p. d = PyStr p \<and> p \<noteq> [])"
  by (auto simp: py_version_defaults_def split: if_splits sum.splits
        dest: tf_py_version_default_nonempty)

lemma arg_value_error: "arg_value ks a = Inl e \<Longrightarrow> e = AttributeError"
  by (induction ks) (auto split: if_splits expr.splits)

lemma py_int_error: "py_int s = Inl e \<Longrightarrow> e = ValueError"
  by (auto simp: py_int_def Let_def split: prod.splits if_splits)

lemma int_all_error: "int_all ss = Inl e \<Longrightarrow> e = ValueError"
  by (induction ss arbitrary: e) (auto split: sum.splits dest: py_int_error)

lemma tf_py_version_default_error: "tf_py_version_default v = Inl e \<Longrightarrow> e \<noteq> KeyError"
  by (auto simp: tf_py_version_default_def split: if_splits sum.splits pyvalue.splits
        dest: int_all_error)

lemma py_version_defaults_error: "py_version_defaults fw v im = Inl e \<Longrightarrow> e \<noteq> KeyError"
  by (auto simp: py_version_defaults_def split: if_splits sum.splits
        dest: tf_py_version_default_error)

lemma modify_node_KeyError:
  "fst (modify_node node) = Inl KeyError \<Longrightarrow>
     map_of FRAMEWORK_DEFAULTS (fst (framework_from_node node)) = None"
  by (auto simp: modify_node_def split: prod.splits sum.splits option.splits if_splits
        dest: arg_value_error py_version_defaults_error)

section \<open>The resolver\<close>

text \<open>
  C1. On a call to one of the five estimator constructors that has neither a
  \<^verbatim>\<open>framework_version\<close> nor a \<^verbatim>\<open>py_version\<close> keyword, \<^verbatim>\<open>modify_node\<close> returns and
  has appended \<^verbatim>\<open>framework_version\<close> with the table's entry for the framework, and then
  \<^verbatim>\<open>py_version\<close>. (The method never looks at \<^verbatim>\<open>image_name\<close>, so the absence of that
  keyword is not needed.) \<^verbatim>\<open>MXNet(entry_point="train.py")\<close> becomes
  \<^verbatim>\<open>MXNet(entry_point="train.py", framework_version="1.2.0", py_version="py2")\<close>.
\<close>

theorem modify_node_appends_defaults:
  assumes "is_named_constructor node FRAMEWORK_CLASSES"
    and "Some ''framework_version'' \<notin> arg ` set (keywords_of node)"
    and "Some ''py_version'' \<notin> arg ` set (keywords_of node)"
  shows "(\<exists>v p.
            (callee_name (func node), v, p) \<in> set
              [(''Chainer'', ''4.1.0'', ''py3''),
               (''MXNet'', ''1.2.0'', ''py2''),
               (''PyTorch'', ''0.4.0'', ''py3''),
               (''SKLearn'', ''0.20.0'', ''py3''),
               (''TensorFlow'', ''1.11.0'', ''py2'')] \<and>
            map_of FRAMEWORK_DEFAULTS (callee_name (func node)) = Some v \<and>
            modify_node node =
              (Inr (), node\<lparr>keywords_of := keywords_of node @
                 [keyword (Some ''framework_version'') (Str v),
                  keyword (Some ''py_version'') (Str p)]\<rparr>)) \<and>
         modify_node
           \<lparr>func = Name ''MXNet'', args = [],
            keywords_of = [keyword (Some ''entry_point'') (Str ''train.py'')]\<rparr> =
         (Inr (),
          \<lparr>func = Name ''MXNet'', args = [],
           keywords_of =
             [keyword (Some ''entry_point'') (Str ''train.py''),
              keyword (Some ''framework_version'') (Str ''1.2.0''),
              keyword (Some ''py_version'') (Str ''py2'')]\<rparr>)"
proof -
  let ?c = "callee_name (func node)"
  from assms(1) have c: "?c \<in> set FRAMEWORK_CLASSES"
    by (rule named_constructor_callee)
  then have fi: "framework_from_node node = (?c, False)"
    by (rule framework_from_estimator)
  have nfv: "Some FRAMEWORK_ARG \<notin> arg ` set (keywords_of node)"
    and npy: "Some PY_ARG \<notin> arg ` set (keywords_of node)"
    using assms(2,3) by (simp_all add: FRAMEWORK_ARG_def PY_ARG_def)
  then have fv: "arg_value (keywords_of node) FRAMEWORK_ARG = Inr PyNone"
    and py: "arg_value (keywords_of node) PY_ARG = Inr PyNone"
    by (simp_all add: arg_value_absent)
  from c consider "?c = ''Chainer''" | "?c = ''MXNet''" | "?c = ''PyTorch''"
    | "?c = ''SKLearn''" | "?c = ''TensorFlow''"
    by (auto simp: FRAMEWORK_CLASSES_eq)
  then have general: "\<exists>v p.
            (?c, v, p) \<in> set
              [(''Chainer'', ''4.1.0'', ''py3''),
               (''MXNet'', ''1.2.0'', ''py2''),
               (''PyTorch'', ''0.4.0'', ''py3''),
               (''SKLearn'', ''0.20.0'', ''py3''),
               (''TensorFlow'', ''1.11.0'', ''py2'')] \<and>
            map_of FRAMEWORK_DEFAULTS ?c = Some v \<and>
            modify_node node =
              (Inr (), node\<lparr>keywords_of := keywords_of node @
                 [keyword (Some ''framework_version'') (Str v),
                  keyword (Some ''py_version'') (Str p)]\<rparr>)"
    by cases
      (simp_all add: modify_node_def fi fv py npy defaults_table py_version_defaults_simps
         tf_default_of_table_version arg_value_append_kw arg_names_distinct
         append_keyword_def FRAMEWORK_ARG_def [symmetric] PY_ARG_def [symmetric])
  have example: "modify_node
           \<lparr>func = Name ''MXNet'', args = [],
            keywords_of = [keyword (Some ''entry_point'') (Str ''train.py'')]\<rparr> =
         (Inr (),
          \<lparr>func = Name ''MXNet'', args = [],
           keywords_of =
             [keyword (Some ''entry_point'') (Str ''train.py''),
              keyword (Some ''framework_version'') (Str ''1.2.0''),
              keyword (Some ''py_version'') (Str ''py2'')]\<rparr>)"
    by (simp add: modify_node_def framework_from_node_def endswith_def FRAMEWORK_ARG_def
          PY_ARG_def defaults_table py_version_defaults_simps append_keyword_def)
  from general example show ?thesis
    by (rule conjI)
qed

theorem modify_node_appends_defaults_witness:
  "modify_node
     \<lparr>func = Attribute (Attribute (Name ''sagemaker'') ''tensorflow'') ''TensorFlow'',
      args = [], keywords_of = [keyword (Some ''entry_point'') (Str ''train.py'')]\<rparr> =
   (Inr (),
    \<lparr>func = Attribute (Attribute (Name ''sagemaker'') ''tensorflow'') ''TensorFlow'',
     args = [],
     keywords_of =
       [keyword (Some ''entry_point'') (Str ''train.py''),
        keyword (Some ''framework_version'') (Str ''1.11.0''),
        keyword (Some ''py_version'') (Str ''py2'')]\<rparr>)"
  using modify_node_appends_defaults
    [of "\<lparr>func = Attribute (Attribute (Name ''sagemaker'') ''tensorflow'') ''TensorFlow'',
      args = [], keywords_of = [keyword (Some ''entry_point'') (Str ''train.py'')]\<rparr>"]
  by (simp add: is_named_constructor_def FRAMEWORK_CLASSES_eq FRAMEWORK_MODULES_eq
        FRAMEWORK_SUBMODULES_def)

text \<open>
  C9. When \<^verbatim>\<open>node_should_be_modified\<close> has returned \<^verbatim>\<open>True\<close>, the framework that
  \<^verbatim>\<open>modify_node\<close> derives is a key of \<^verbatim>\<open>FRAMEWORK_DEFAULTS\<close>: the lookup is defined,
  \<^verbatim>\<open>modify_node\<close> raises no \<^verbatim>\<open>KeyError\<close>, and the callee is a name or an attribute, so
  the branch that sets the framework to the empty string is not taken.
\<close>

theorem defaults_lookup_safe:
  assumes "node_should_be_modified node = Inr True"
  shows "fst (framework_from_node node) \<in> set (map fst FRAMEWORK_DEFAULTS) \<and>
         (\<exists>v. map_of FRAMEWORK_DEFAULTS (fst (framework_from_node node)) = Some v) \<and>
         ((\<exists>c. func node = Name c) \<or> (\<exists>v c. func node = Attribute v c)) \<and>
         fst (modify_node node) \<noteq> Inl KeyError"
proof -
  from assms have m: "is_named_constructor node FRAMEWORK_CLASSES \<or>
      is_named_constructor node MODEL_CLASSES"
    by (auto simp: node_should_be_modified_def split: if_splits)
  then have shape: "(\<exists>c. func node = Name c) \<or> (\<exists>v c. func node = Attribute v c)"
    using named_constructor_shape by blast
  from m have key: "fst (framework_from_node node) \<in> set FRAMEWORK_CLASSES"
    using named_constructor_callee framework_from_estimator framework_from_model
    by fastforce
  then obtain v where v: "map_of FRAMEWORK_DEFAULTS (fst (framework_from_node node)) = Some v"
    by (auto simp: FRAMEWORK_CLASSES_eq defaults_table)
  obtain fw im where fi: "framework_from_node node = (fw, im)"
    by (cases "framework_from_node node")
  have "fst (modify_node node) \<noteq> Inl KeyError"
    using v modify_node_KeyError by fastforce
  with shape key v show ?thesis
    by (simp add: FRAMEWORK_CLASSES_def)
qed

theorem defaults_lookup_safe_witness:
  "node_should_be_modified
     \<lparr>func = Name ''PyTorchModel'', args = [],
      keywords_of = [keyword (Some ''model_data'') (Name ''data'')]\<rparr> = Inr True \<and>
   framework_from_node
     \<lparr>func = Name ''PyTorchModel'', args = [],
      keywords_of = [keyword (Some ''model_data'') (Name ''data'')]\<rparr> = (''PyTorch'', True) \<and>
   map_of FRAMEWORK_DEFAULTS ''PyTorch'' = Some ''0.4.0'' \<and>
   fst (modify_node
     \<lparr>func = Name ''PyTorchModel'', args = [],
      keywords_of = [keyword (Some ''model_data'') (Name ''data'')]\<rparr>) \<noteq> Inl KeyError"
proof -
  let ?n = "\<lparr>func = Name ''PyTorchModel'', args = [],
      keywords_of = [keyword (Some ''model_data'') (Name ''data'')]\<rparr>"
  have s: "node_should_be_modified ?n = Inr True"
    by (simp add: node_should_be_modified_def is_named_constructor_def FRAMEWORK_CLASSES_eq
          MODEL_CLASSES_eq version_args_needed_def FRAMEWORK_ARG_def)
  have f: "framework_from_node ?n = (''PyTorch'', True)"
    by (simp add: framework_from_node_def endswith_def find_str_def slice_to_def)
  from defaults_lookup_safe [OF s] s f show ?thesis
    by (simp add: defaults_table)
qed

lemma arg_value_append_other:
  "b \<noteq> a \<Longrightarrow> arg_value (ks @ [keyword (Some b) x]) a = arg_value ks a"
  by (induction ks) auto

text \<open>
  C7. A callee whose last name is \<^verbatim>\<open>PyTorchModel\<close> gives the framework \<^verbatim>\<open>PyTorch\<close> and
  the model flag; the \<^verbatim>\<open>py_version\<close> default of a PyTorch or Chainer model is
  \<^verbatim>\<open>py3\<close>; an SKLearn or TensorFlow model has none, and on such a call
  \<^verbatim>\<open>modify_node\<close> appends no \<^verbatim>\<open>py_version\<close> keyword: whether it returns or raises, it
  leaves the node as it was, or with the table's \<^verbatim>\<open>framework_version\<close> appended and
  nothing else.
\<close>

theorem model_suffix_stripping:
  "(callee_name (func node) = ''PyTorchModel'' \<longrightarrow>
      framework_from_node node = (''PyTorch'', True)) \<and>
   py_version_defaults ''PyTorch'' fv True = Inr (PyStr ''py3'') \<and>
   py_version_defaults ''Chainer'' fv True = Inr (PyStr ''py3'') \<and>
   py_version_defaults ''SKLearn'' fv True = Inr PyNone \<and>
   py_version_defaults ''TensorFlow'' fv True = Inr PyNone \<and>
   (callee_name (func node) = ''SKLearnModel'' \<longrightarrow>
      framework_from_node node = (''SKLearn'', True) \<and>
      (snd (modify_node node) = node \<or>
       snd (modify_node node) =
         node\<lparr>keywords_of := keywords_of node @
           [keyword (Some ''framework_version'') (Str ''0.20.0'')]\<rparr>)) \<and>
   (callee_name (func node) = ''TensorFlowModel'' \<longrightarrow>
      framework_from_node node = (''TensorFlow'', True) \<and>
      (snd (modify_node node) = node \<or>
       snd (modify_node node) =
         node\<lparr>keywords_of := keywords_of node @
           [keyword (Some ''framework_version'') (Str ''1.11.0'')]\<rparr>))"
proof -
  have strip: "framework_from_node node = (''PyTorch'', True)"
    if "callee_name (func node) = ''PyTorchModel''"
    using that by (simp add: framework_from_node_def endswith_def find_str_def slice_to_def)
  have sk: "framework_from_node node = (''SKLearn'', True)"
    if "callee_name (func node) = ''SKLearnModel''"
    using that by (simp add: framework_from_node_def endswith_def find_str_def slice_to_def)
  have tf: "framework_from_node node = (''TensorFlow'', True)"
    if "callee_name (func node) = ''TensorFlowModel''"
    using that by (simp add: framework_from_node_def endswith_def find_str_def slice_to_def)
  have no_py: "snd (modify_node node) = node \<or>
      snd (modify_node node) =
        node\<lparr>keywords_of := keywords_of node @
          [keyword (Some ''framework_version'') (Str v)]\<rparr>"
    if "framework_from_node node = (fw, True)" "fw = ''SKLearn'' \<or> fw = ''TensorFlow''"
      "map_of FRAMEWORK_DEFAULTS fw = Some v" for fw v
  proof (cases "arg_value (keywords_of node) FRAMEWORK_ARG")
    case (Inl e)
    with that show ?thesis
      by (simp add: modify_node_def)
  next
    case (Inr x)
    with that show ?thesis
      by (cases "arg_value (keywords_of node @
              [keyword (Some FRAMEWORK_ARG) (Constant (PyStr v))]) PY_ARG";
          cases "arg_value (keywords_of node) PY_ARG")
        (auto simp: modify_node_def py_version_defaults_simps append_keyword_def
           FRAMEWORK_ARG_def [symmetric])
  qed
  show ?thesis
    using strip sk tf no_py [of "''SKLearn''"] no_py [of "''TensorFlow''"]
    by (simp add: py_version_defaults_simps defaults_table)
qed

theorem model_suffix_stripping_witness:
  "framework_from_node
     \<lparr>func = Name ''PyTorchModel'', args = [], keywords_of = []\<rparr> = (''PyTorch'', True) \<and>
   snd (modify_node
     \<lparr>func = Attribute (Attribute (Name ''sagemaker'') ''sklearn'') ''SKLearnModel'',
      args = [], keywords_of = [keyword (Some ''model_data'') (Name ''data'')]\<rparr>) =
     \<lparr>func = Attribute (Attribute (Name ''sagemaker'') ''sklearn'') ''SKLearnModel'',
      args = [],
      keywords_of = [keyword (Some ''model_data'') (Name ''data''),
        keyword (Some ''framework_version'') (Str ''0.20.0'')]\<rparr> \<and>
   snd (modify_node
     \<lparr>func = Name ''TensorFlowModel'', args = [],
      keywords_of = [keyword (Some ''framework_version'') (Str ''1.15.2'')]\<rparr>) =
     \<lparr>func = Name ''TensorFlowModel'', args = [],
      keywords_of = [keyword (Some ''framework_version'') (Str ''1.15.2'')]\<rparr>"
  using model_suffix_stripping
      [of "\<lparr>func = Name ''PyTorchModel'', args = [], keywords_of = []\<rparr>"]
    model_suffix_stripping
      [of "\<lparr>func = Attribute (Attribute (Name ''sagemaker'') ''sklearn'') ''SKLearnModel'',
        args = [], keywords_of = [keyword (Some ''model_data'') (Name ''data'')]\<rparr>"]
    model_suffix_stripping
      [of "\<lparr>func = Name ''TensorFlowModel'', args = [],
        keywords_of = [keyword (Some ''framework_version'') (Str ''1.15.2'')]\<rparr>"]
  by (simp add: modify_node_def framework_from_node_def endswith_def find_str_def slice_to_def
        FRAMEWORK_ARG_def PY_ARG_def defaults_table py_version_defaults_simps
        append_keyword_def)



section \<open>The argument-sufficiency evaluator\<close>

text \<open>
  C6. When the image argument of the call (\<^verbatim>\<open>image_name\<close> for an estimator class,
  \<^verbatim>\<open>image\<close> for a model class) is a non-empty string literal,
  \<^verbatim>\<open>node_should_be_modified\<close> returns \<^verbatim>\<open>False\<close>, whatever the other keywords are.
\<close>

theorem image_short_circuit:
  assumes "keyword (Some img) (Str s) \<in> set (keywords_of node)"
    and "\<forall>kw\<in>set (keywords_of node). arg kw = Some img \<longrightarrow> kw = keyword (Some img) (Str s)"
    and "s \<noteq> []"
    and "is_named_constructor node FRAMEWORK_CLASSES \<and> img = ''image_name'' \<or>
         is_named_constructor node MODEL_CLASSES \<and> img = ''image''"
  shows "node_should_be_modified node = Inr False"
proof -
  have img: "arg_value (keywords_of node) img = Inr (PyStr s)"
    using assms(1,2) by (rule arg_value_literal)
  with assms(3) have needed: "version_args_needed node img = Inr False"
    by (simp add: version_args_needed_def)
  from assms(4) show ?thesis
  proof
    assume "is_named_constructor node FRAMEWORK_CLASSES \<and> img = ''image_name''"
    with needed show ?thesis
      by (simp add: node_should_be_modified_def)
  next
    assume m: "is_named_constructor node MODEL_CLASSES \<and> img = ''image''"
    then have "callee_name (func node) \<in> set MODEL_CLASSES"
      by (simp add: named_constructor_callee)
    then have "\<not> is_named_constructor node FRAMEWORK_CLASSES"
      using named_constructor_callee estimator_not_model by blast
    with m needed show ?thesis
      by (simp add: node_should_be_modified_def)
  qed
qed

theorem image_short_circuit_witness:
  "node_should_be_modified
     \<lparr>func = Name ''MXNetModel'', args = [],
      keywords_of = [keyword (Some ''image'') (Str ''my-image:latest''),
                     keyword (Some ''py_version'') (Name ''v'')]\<rparr> = Inr False \<and>
   node_should_be_modified
     \<lparr>func = Name ''TensorFlow'', args = [],
      keywords_of = [keyword (Some ''framework_version'') (Name ''v''),
                     keyword (Some ''image_name'') (Str ''my-image:latest'')]\<rparr> = Inr False"
  using image_short_circuit
      [of "''image''" "''my-image:latest''"
          "\<lparr>func = Name ''MXNetModel'', args = [],
            keywords_of = [keyword (Some ''image'') (Str ''my-image:latest''),
                           keyword (Some ''py_version'') (Name ''v'')]\<rparr>"]
    image_short_circuit
      [of "''image_name''" "''my-image:latest''"
          "\<lparr>func = Name ''TensorFlow'', args = [],
            keywords_of = [keyword (Some ''framework_version'') (Name ''v''),
                     keyword (Some ''image_name'') (Str ''my-image:latest'')]\<rparr>"]
  by (simp add: is_named_constructor_def FRAMEWORK_CLASSES_eq MODEL_CLASSES_eq)

text \<open>
  C10. On an estimator call with \<^verbatim>\<open>framework_version=""\<close> and neither \<^verbatim>\<open>image_name\<close> nor
  \<^verbatim>\<open>py_version\<close>, the empty version counts as supplied: \<^verbatim>\<open>node_should_be_modified\<close>
  returns \<^verbatim>\<open>True\<close> only for the missing \<^verbatim>\<open>py_version\<close> (with a \<^verbatim>\<open>py_version\<close> keyword
  it returns \<^verbatim>\<open>False\<close>), and \<^verbatim>\<open>modify_node\<close> appends \<^verbatim>\<open>py_version\<close> alone, which is
  \<^verbatim>\<open>py2\<close> for TensorFlow. An empty \<^verbatim>\<open>image_name\<close> literal does not count as supplied:
  with it the call still needs modification.
\<close>

theorem empty_version_is_supplied:
  assumes "is_named_constructor node FRAMEWORK_CLASSES"
    and "keyword (Some ''framework_version'') (Str []) \<in> set (keywords_of node)"
    and "\<forall>kw\<in>set (keywords_of node). arg kw = Some ''framework_version'' \<longrightarrow>
           kw = keyword (Some ''framework_version'') (Str [])"
    and "Some ''image_name'' \<notin> arg ` set (keywords_of node)"
    and "Some ''py_version'' \<notin> arg ` set (keywords_of node)"
  shows "node_should_be_modified node = Inr True \<and>
         (\<exists>p. (callee_name (func node), p) \<in> set
                 [(''Chainer'', ''py3''), (''MXNet'', ''py2''), (''PyTorch'', ''py3''),
                  (''SKLearn'', ''py3''), (''TensorFlow'', ''py2'')] \<and>
              modify_node node =
                (Inr (), node\<lparr>keywords_of := keywords_of node @
                   [keyword (Some ''py_version'') (Str p)]\<rparr>)) \<and>
         node_should_be_modified
           (node\<lparr>keywords_of := keywords_of node @ [keyword (Some ''py_version'') (Str q)]\<rparr>) =
           Inr False \<and>
         node_should_be_modified
           (node\<lparr>keywords_of := keyword (Some ''image_name'') (Str []) # keywords_of node\<rparr>) =
           Inr True"
proof -
  let ?c = "callee_name (func node)"
  let ?q = "node\<lparr>keywords_of := keywords_of node @ [keyword (Some ''py_version'') (Str q)]\<rparr>"
  let ?n' = "node\<lparr>keywords_of := keyword (Some ''image_name'') (Str []) # keywords_of node\<rparr>"
  from assms(1) have c: "?c \<in> set FRAMEWORK_CLASSES"
    by (rule named_constructor_callee)
  then have fi: "framework_from_node node = (?c, False)"
    by (rule framework_from_estimator)
  have fi': "framework_from_node ?n' = (?c, False)"
    using fi by (simp add: framework_from_node_def)
  have m': "is_named_constructor ?n' FRAMEWORK_CLASSES"
    using assms(1) by (simp add: is_named_constructor_def)
  have fv: "arg_value (keywords_of node) FRAMEWORK_ARG = Inr (PyStr [])"
    using assms(2,3) unfolding FRAMEWORK_ARG_def by (rule arg_value_literal)
  have npy: "Some PY_ARG \<notin> arg ` set (keywords_of node)"
    using assms(5) by (simp add: PY_ARG_def)
  then have py: "arg_value (keywords_of node) PY_ARG = Inr PyNone"
    by (rule arg_value_absent)
  have im: "arg_value (keywords_of node) ''image_name'' = Inr PyNone"
    using assms(4) by (rule arg_value_absent)
  have tf: "tf_py_version_default (PyStr []) = Inr ''py2''"
    by (simp add: tf_py_version_default_def)
  from c consider "?c = ''Chainer''" | "?c = ''MXNet''" | "?c = ''PyTorch''"
    | "?c = ''SKLearn''" | "?c = ''TensorFlow''"
    by (auto simp: FRAMEWORK_CLASSES_eq)
  then obtain p where p: "py_version_defaults ?c (PyStr []) False = Inr (PyStr p)"
    "(?c, p) \<in> set [(''Chainer'', ''py3''), (''MXNet'', ''py2''), (''PyTorch'', ''py3''),
                  (''SKLearn'', ''py3''), (''TensorFlow'', ''py2'')]"
    by cases (simp_all add: py_version_defaults_simps tf)
  then have pne: "p \<noteq> []"
    by (auto dest: py_version_defaults_result)
  have 1: "node_should_be_modified node = Inr True"
    using assms(1) im fv py p(1) pne
    by (simp add: node_should_be_modified_def version_args_needed_def fi)
  have 2: "modify_node node =
      (Inr (), node\<lparr>keywords_of := keywords_of node @ [keyword (Some ''py_version'') (Str p)]\<rparr>)"
    using fv py p(1) pne
    by (simp add: modify_node_def fi append_keyword_def PY_ARG_def)
  have 3: "node_should_be_modified ?n' = Inr True"
    using m' fv py p(1) pne
    by (simp add: node_should_be_modified_def version_args_needed_def fi' arg_names_distinct)
  have "framework_from_node ?q = (?c, False)" "is_named_constructor ?q FRAMEWORK_CLASSES"
    using fi assms(1) by (simp_all add: framework_from_node_def is_named_constructor_def)
  moreover have "arg_value (keywords_of ?q) PY_ARG = Inr (PyStr q)"
    using npy by (simp add: arg_value_append_kw PY_ARG_def [symmetric])
  moreover have "arg_value (keywords_of ?q) FRAMEWORK_ARG = Inr (PyStr [])"
    "arg_value (keywords_of ?q) ''image_name'' = Inr PyNone"
    using fv im
    by (simp_all add: arg_value_append_other arg_names_distinct PY_ARG_def [symmetric])
  ultimately have 4: "node_should_be_modified ?q = Inr False"
    using p(1) pne
    by (simp add: node_should_be_modified_def version_args_needed_def)
  from 1 2 3 4 p(2) show ?thesis
    by blast
qed

theorem empty_version_is_supplied_witness:
  "node_should_be_modified
     \<lparr>func = Name ''TensorFlow'', args = [],
      keywords_of = [keyword (Some ''framework_version'') (Str [])]\<rparr> = Inr True \<and>
   modify_node
     \<lparr>func = Name ''TensorFlow'', args = [],
      keywords_of = [keyword (Some ''framework_version'') (Str [])]\<rparr> =
     (Inr (),
      \<lparr>func = Name ''TensorFlow'', args = [],
       keywords_of = [keyword (Some ''framework_version'') (Str []),
                      keyword (Some ''py_version'') (Str ''py2'')]\<rparr>) \<and>
   node_should_be_modified
     \<lparr>func = Name ''TensorFlow'', args = [],
      keywords_of = [keyword (Some ''image_name'') (Str []),
                     keyword (Some ''framework_version'') (Str [])]\<rparr> = Inr True"
  using empty_version_is_supplied
    [of "\<lparr>func = Name ''TensorFlow'', args = [],
          keywords_of = [keyword (Some ''framework_version'') (Str [])]\<rparr>"]
  by (simp add: is_named_constructor_def FRAMEWORK_CLASSES_eq)

section \<open>Version strings\<close>

lemma split_no_sep: "d \<notin> set c \<Longrightarrow> split d c = [c]"
  by (induction c) auto

lemma split_append_sep: "d \<notin> set c \<Longrightarrow> split d (c @ d # r) = c # split d r"
  by (induction c) (auto split: list.splits)

lemma split_dotted:
  "cs \<noteq> [] \<Longrightarrow> \<forall>c\<in>set cs. CHR ''.'' \<notin> set c \<Longrightarrow> split CHR ''.'' (dotted cs) = cs"
  by (induction cs rule: dotted.induct) (simp_all add: split_no_sep split_append_sep)

lemma is_digit_facts:
  assumes "is_digit ch"
  shows "\<not> is_space ch" "ch \<noteq> CHR ''+''" "ch \<noteq> CHR ''-''" "ch \<noteq> CHR ''_''" "ch \<noteq> CHR ''.''"
  using assms by (auto simp: is_digit_def is_space_def Let_def)

lemma grouped_digits_all:
  "c \<noteq> [] \<Longrightarrow> \<forall>ch\<in>set c. is_digit ch \<Longrightarrow> grouped_digits c"
  by (induction c rule: grouped_digits.induct) (auto dest: is_digit_facts)

lemma strip_digits:
  assumes "c \<noteq> []" "\<forall>ch\<in>set c. is_digit ch"
  shows "strip c = c"
proof -
  from assms obtain x xs where c: "c = x # xs" by (cases c) auto
  with assms have "\<not> is_space x" by (simp add: is_digit_facts)
  with c have 1: "dropWhile is_space c = c" by simp
  from assms have "rev c \<noteq> []" "\<not> is_space (hd (rev c))"
    by (simp_all add: hd_rev is_digit_facts)
  then have "dropWhile is_space (rev c) = rev c"
    by (cases "rev c") auto
  with 1 show ?thesis by (simp add: strip_def)
qed

lemma py_int_digits:
  assumes "c \<noteq> []" "\<forall>ch\<in>set c. is_digit ch"
  shows "py_int c = Inr (int (digits_val c))"
proof -
  from assms obtain x xs where c: "c = x # xs" by (cases c) auto
  with assms have x: "x \<noteq> CHR ''+''" "x \<noteq> CHR ''-''" by (simp_all add: is_digit_facts)
  have f: "filter (\<lambda>ch. ch \<noteq> CHR ''_'') c = c"
    using assms(2) by (auto simp: filter_id_conv dest: is_digit_facts)
  show ?thesis
    using strip_digits [OF assms] grouped_digits_all [OF assms] x f
    by (simp add: py_int_def c)
qed

lemma int_all_digits:
  "\<forall>c\<in>set cs. c \<noteq> [] \<and> (\<forall>ch\<in>set c. is_digit ch) \<Longrightarrow>
     int_all cs = Inr (map (\<lambda>c. int (digits_val c)) cs)"
  by (induction cs) (simp_all add: py_int_digits)

lemma dotted_nonempty: "cs \<noteq> [] \<Longrightarrow> \<forall>c\<in>set cs. c \<noteq> [] \<Longrightarrow> dotted cs \<noteq> []"
  by (induction cs rule: dotted.induct) simp_all

lemma list_lt_lexord: "list_lt xs ys \<longleftrightarrow> (xs, ys) \<in> lexord {(a, b). a < b}"
  by (induction xs ys rule: list_lt.induct) auto

text \<open>
  C4. For a TensorFlow estimator the \<^verbatim>\<open>py_version\<close> default is \<^verbatim>\<open>py2\<close> for the empty
  version; for a version whose components \<^verbatim>\<open>int\<close> accepts it is \<^verbatim>\<open>py2\<close> if the list of
  integers is below \<^verbatim>\<open>[1, 12]\<close>, else \<^verbatim>\<open>py3\<close> if it is below \<^verbatim>\<open>[2, 2]\<close>, else \<^verbatim>\<open>py37\<close>,
  in the order of Python's lists; and every version string of the data model, non-empty
  decimal components joined by dots, is parsed to its components' values, so the
  default is defined on it. An absent version is the table's \<^verbatim>\<open>1.11.0\<close>. The versions
  \<^verbatim>\<open>1.11.0\<close>, \<^verbatim>\<open>1.12.0\<close>, \<^verbatim>\<open>2.1.0\<close> and \<^verbatim>\<open>2.2.0\<close> give \<^verbatim>\<open>py2\<close>, \<^verbatim>\<open>py3\<close>, \<^verbatim>\<open>py3\<close> and
  \<^verbatim>\<open>py37\<close>.
\<close>

theorem tf_py_version_buckets:
  "py_version_defaults ''TensorFlow'' (PyStr []) False = Inr (PyStr ''py2'') \<and>
   (fv \<noteq> [] \<and> int_all (split CHR ''.'' fv) = Inr version \<longrightarrow>
      py_version_defaults ''TensorFlow'' (PyStr fv) False =
        Inr (PyStr (if list_lt version [1, 12] then ''py2''
                   else if list_lt version [2, 2] then ''py3'' else ''py37''))) \<and>
   (cs \<noteq> [] \<and> (\<forall>c\<in>set cs. c \<noteq> [] \<and> (\<forall>ch\<in>set c. is_digit ch)) \<longrightarrow>
      int_all (split CHR ''.'' (dotted cs)) = Inr (map (\<lambda>c. int (digits_val c)) cs) \<and>
      py_version_defaults ''TensorFlow'' (PyStr (dotted cs)) False =
        Inr (PyStr (if list_lt (map (\<lambda>c. int (digits_val c)) cs) [1, 12] then ''py2''
                   else if list_lt (map (\<lambda>c. int (digits_val c)) cs) [2, 2] then ''py3''
                   else ''py37''))) \<and>
   map_of FRAMEWORK_DEFAULTS ''TensorFlow'' = Some ''1.11.0'' \<and>
   py_version_defaults ''TensorFlow'' (PyStr ''1.11.0'') False = Inr (PyStr ''py2'') \<and>
   py_version_defaults ''TensorFlow'' (PyStr ''1.12.0'') False = Inr (PyStr ''py3'') \<and>
   py_version_defaults ''TensorFlow'' (PyStr ''2.1.0'') False = Inr (PyStr ''py3'') \<and>
   py_version_defaults ''TensorFlow'' (PyStr ''2.2.0'') False = Inr (PyStr ''py37'')"
proof -
  have empty: "py_version_defaults ''TensorFlow'' (PyStr []) False = Inr (PyStr ''py2'')"
    by (simp add: py_version_defaults_simps tf_py_version_default_def)
  have rule: "py_version_defaults ''TensorFlow'' (PyStr fv) False =
        Inr (PyStr (if list_lt version [1, 12] then ''py2''
                   else if list_lt version [2, 2] then ''py3'' else ''py37''))"
    if "fv \<noteq> []" "int_all (split CHR ''.'' fv) = Inr version" for fv version
    using that by (simp add: py_version_defaults_simps tf_py_version_default_def)
  have parse: "int_all (split CHR ''.'' (dotted cs)) = Inr (map (\<lambda>c. int (digits_val c)) cs)"
    if "cs \<noteq> []" "\<forall>c\<in>set cs. c \<noteq> [] \<and> (\<forall>ch\<in>set c. is_digit ch)"
  proof -
    from that(2) have "\<forall>c\<in>set cs. CHR ''.'' \<notin> set c"
      by (auto dest: is_digit_facts)
    with that(1) have "split CHR ''.'' (dotted cs) = cs"
      by (rule split_dotted)
    with that(2) show ?thesis
      by (simp add: int_all_digits)
  qed
  have total: "py_version_defaults ''TensorFlow'' (PyStr (dotted cs)) False =
        Inr (PyStr (if list_lt (map (\<lambda>c. int (digits_val c)) cs) [1, 12] then ''py2''
                   else if list_lt (map (\<lambda>c. int (digits_val c)) cs) [2, 2] then ''py3''
                   else ''py37''))"
    if "cs \<noteq> []" "\<forall>c\<in>set cs. c \<noteq> [] \<and> (\<forall>ch\<in>set c. is_digit ch)"
  proof -
    from that have "dotted cs \<noteq> []"
      by (simp add: dotted_nonempty)
    then show ?thesis
      using parse [OF that] by (rule rule)
  qed
  have examples:
    "tf_py_version_default (PyStr ''1.11.0'') = Inr ''py2''"
    "tf_py_version_default (PyStr ''1.12.0'') = Inr ''py3''"
    "tf_py_version_default (PyStr ''2.1.0'') = Inr ''py3''"
    "tf_py_version_default (PyStr ''2.2.0'') = Inr ''py37''"
    by code_simp+
  from empty rule parse total examples show ?thesis
    by (simp add: py_version_defaults_simps defaults_table)
qed

theorem tf_py_version_buckets_witness:
  "int_all (split CHR ''.'' ''2.2.0'') = Inr [2, 2, 0] \<and>
   py_version_defaults ''TensorFlow'' (PyStr ''2.2.0'') False = Inr (PyStr ''py37'') \<and>
   dotted [''1'', ''12'', ''0''] = ''1.12.0'' \<and>
   map (\<lambda>c. int (digits_val c)) [''1'', ''12'', ''0''] = [1, 12, 0] \<and>
   py_version_defaults ''TensorFlow'' (PyStr (dotted [''1'', ''12'', ''0''])) False =
     Inr (PyStr ''py3'')"
proof -
  have parsed: "int_all (split CHR ''.'' ''2.2.0'') = Inr [2, 2, 0]"
    by code_simp
  have digits: "\<forall>c\<in>set [''1'', ''12'', ''0'']. c \<noteq> [] \<and> (\<forall>ch\<in>set c. is_digit ch)"
    by (simp add: is_digit_def)
  have vals: "map (\<lambda>c. int (digits_val c)) [''1'', ''12'', ''0''] = [1, 12, 0]"
    by (simp add: digits_val_def digit_val_def)
  from tf_py_version_buckets [of "''2.2.0''" "[2, 2, 0]" "[''1'', ''12'', ''0'']"]
    parsed digits vals
  show ?thesis
    by simp
qed

section \<open>Keywords that are not string literals\<close>

lemma arg_value_non_literal:
  assumes "Some a \<notin> arg ` set ks" and "\<forall>c. v \<noteq> Constant c"
  shows "arg_value (ks @ keyword (Some a) v # rest) a = Inl AttributeError"
  using assms by (induction ks) (auto split: expr.splits)

text \<open>
  C3. A keyword whose value is a computed expression is not treated as absent: as soon as
  \<^verbatim>\<open>_arg_value\<close> reaches a keyword of the name it looks for, it reads the field \<^verbatim>\<open>s\<close> of
  the value, and a name, a call or any other computed expression has none. The lookup
  raises \<^verbatim>\<open>AttributeError\<close>, and so does \<^verbatim>\<open>node_should_be_modified\<close>, here on
  \<^verbatim>\<open>MXNet(framework_version=version)\<close>, \<^verbatim>\<open>MXNet(image_name=image)\<close> and
  \<^verbatim>\<open>MXNet(framework_version="1.2.0", py_version=py)\<close>.
\<close>

theorem non_literal_keyword_raises:
  "arg_value [keyword (Some ''framework_version'') (Name ''version'')] ''framework_version'' =
     Inl AttributeError \<and>
   node_should_be_modified
     \<lparr>func = Name ''MXNet'', args = [],
      keywords_of = [keyword (Some ''framework_version'') (Name ''version'')]\<rparr> =
     Inl AttributeError \<and>
   node_should_be_modified
     \<lparr>func = Name ''MXNet'', args = [],
      keywords_of = [keyword (Some ''image_name'') (Name ''image'')]\<rparr> =
     Inl AttributeError \<and>
   node_should_be_modified
     \<lparr>func = Name ''MXNet'', args = [],
      keywords_of = [keyword (Some ''framework_version'') (Str ''1.2.0''),
                     keyword (Some ''py_version'') (Name ''py'')]\<rparr> =
     Inl AttributeError"
  by (simp add: node_should_be_modified_def is_named_constructor_def FRAMEWORK_CLASSES_eq
        version_args_needed_def FRAMEWORK_ARG_def PY_ARG_def framework_from_node_def
        endswith_def py_version_defaults_simps)

section \<open>Applying the modifier twice\<close>

lemma py_version_defaults_on_table:
  assumes "map_of FRAMEWORK_DEFAULTS fw = Some v"
  shows "\<exists>r. py_version_defaults fw (PyStr v) im = Inr r"
proof -
  from assms have "(fw, v) \<in> set FRAMEWORK_DEFAULTS"
    by (rule map_of_SomeD)
  then consider "fw = ''TensorFlow''" "v = ''1.11.0''" | "fw \<noteq> ''TensorFlow''"
    by (auto simp: FRAMEWORK_DEFAULTS_def)
  then show ?thesis
  proof cases
    case 1
    then show ?thesis
      by (cases im) (simp_all add: py_version_defaults_simps tf_default_of_table_version)
  next
    case 2
    then show ?thesis
      by (simp add: py_version_defaults_def)
  qed
qed

lemma should_modify_matches:
  "node_should_be_modified node = Inr True \<Longrightarrow>
     is_named_constructor node FRAMEWORK_CLASSES \<or> is_named_constructor node MODEL_CLASSES"
  by (auto simp: node_should_be_modified_def split: if_splits)

lemma should_modify_framework_key:
  assumes "node_should_be_modified node = Inr True"
  shows "fst (framework_from_node node) \<in> set FRAMEWORK_CLASSES"
  using should_modify_matches [OF assms]
    named_constructor_callee framework_from_estimator framework_from_model
  by fastforce

lemma framework_key_lookup:
  "fw \<in> set FRAMEWORK_CLASSES \<Longrightarrow> \<exists>v. map_of FRAMEWORK_DEFAULTS fw = Some v"
  by (auto simp: FRAMEWORK_CLASSES_eq defaults_table)

lemma should_modify_needed:
  assumes "node_should_be_modified node = Inr True" and "func node' = func node"
  shows "\<exists>img. (img = ''image_name'' \<or> img = ''image'') \<and>
           version_args_needed node img = Inr True \<and>
           node_should_be_modified node' = version_args_needed node' img"
  using assms
  by (auto simp: node_should_be_modified_def is_named_constructor_def split: if_splits)

lemma modify_node_func: "func (snd (modify_node node)) = func node"
  by (auto simp: modify_node_def append_keyword_def
        split: prod.splits sum.splits option.splits if_splits)

lemma needed_after_modify:
  assumes "img = ''image_name'' \<or> img = ''image''"
    and "version_args_needed node img = Inr True"
    and "modify_node node = (Inr (), node')"
    and "Constant PyNone \<notin> kw_value ` set (keywords_of node)"
  shows "version_args_needed node' img = Inr False"
proof -
  obtain fw im where fi: "framework_from_node node = (fw, im)"
    by (cases "framework_from_node node")
  have d: "img \<noteq> FRAMEWORK_ARG" "img \<noteq> PY_ARG" "FRAMEWORK_ARG \<noteq> img" "PY_ARG \<noteq> img"
    using assms(1) by (auto simp: arg_names_distinct)
  note absent = arg_value_None_no_literal [OF assms(4)]
  from assms(2) obtain i where i: "arg_value (keywords_of node) img = Inr i" "\<not> truthy i"
    by (auto simp: version_args_needed_def split: sum.splits if_splits)
  show ?thesis
  proof (cases "arg_value (keywords_of node) FRAMEWORK_ARG")
    case (Inl e)
    with assms(3) show ?thesis
      by (simp add: modify_node_def fi)
  next
    case fv: (Inr v)
    show ?thesis
    proof (cases "v = PyNone")
      case True
      with fv have nfv: "Some FRAMEWORK_ARG \<notin> arg ` set (keywords_of node)"
        by (simp add: absent)
      from True fv assms(3) obtain t where t: "map_of FRAMEWORK_DEFAULTS fw = Some t"
        by (auto simp: modify_node_def fi split: option.splits)
      then obtain r where r: "py_version_defaults fw (PyStr t) im = Inr r"
        using py_version_defaults_on_table by blast
      let ?n1 = "append_keyword node FRAMEWORK_ARG (PyStr t)"
      have n1: "arg_value (keywords_of ?n1) img = Inr i"
        "arg_value (keywords_of ?n1) FRAMEWORK_ARG = Inr (PyStr t)"
        "arg_value (keywords_of ?n1) PY_ARG = arg_value (keywords_of node) PY_ARG"
        using i d nfv
        by (simp_all add: arg_value_append_other arg_names_distinct)
          (simp add: arg_value_append_kw)
      show ?thesis
      proof (cases "arg_value (keywords_of node) PY_ARG")
        case (Inl e)
        with assms(3) fv True t n1 show ?thesis
          by (simp add: modify_node_def fi)
      next
        case py: (Inr p)
        show ?thesis
        proof (cases "p = PyNone \<and> truthy r")
          case False
          with assms(3) fv True t r py n1 have "node' = ?n1"
            by (auto simp: modify_node_def fi split: if_splits)
          with False n1 r py i show ?thesis
            by (auto simp: version_args_needed_def fi)
        next
          case both: True
          with py have npy: "Some PY_ARG \<notin> arg ` set (keywords_of ?n1)"
            using nfv by (simp add: absent arg_names_distinct)
          from both assms(3) fv True t r py n1 have n': "node' = append_keyword ?n1 PY_ARG r"
            by (auto simp: modify_node_def fi split: if_splits)
          have "arg_value (keywords_of node') img = Inr i"
            "arg_value (keywords_of node') FRAMEWORK_ARG = Inr (PyStr t)"
            "arg_value (keywords_of node') PY_ARG = Inr r"
            unfolding n' keywords_of_append [of ?n1] using n1(1,2) npy d
            by (simp_all add: arg_value_append_other arg_names_distinct
                  del: keywords_of_append)
              (simp add: arg_value_append_kw del: keywords_of_append)
          moreover have "framework_from_node node' = (fw, im)"
            unfolding n' using fi by simp
          ultimately show ?thesis
            using both r i by (auto simp: version_args_needed_def)
        qed
      qed
    next
      case False
      with assms(2) i fv obtain p where
        p: "py_version_defaults fw v im = Inr p" "truthy p"
          "arg_value (keywords_of node) PY_ARG = Inr PyNone"
        by (auto simp: version_args_needed_def fi split: sum.splits if_splits)
      then have npy: "Some PY_ARG \<notin> arg ` set (keywords_of node)"
        by (simp add: absent)
      from assms(3) fv False p have n': "node' = append_keyword node PY_ARG p"
        by (simp add: modify_node_def fi)
      have "arg_value (keywords_of node') img = Inr i"
        "arg_value (keywords_of node') FRAMEWORK_ARG = Inr v"
        "arg_value (keywords_of node') PY_ARG = Inr p"
        unfolding n' using i fv npy d
        by (simp_all add: arg_value_append_other arg_names_distinct)
          (simp add: arg_value_append_kw)
      moreover have "framework_from_node node' = (fw, im)"
        unfolding n' using fi by simp
      ultimately show ?thesis
        using False p i by (auto simp: version_args_needed_def)
    qed
  qed
qed

lemma idempotent_when_modify_returns:
  assumes "node_should_be_modified node = Inr True"
    and "modify_node node = (Inr (), node')"
    and "Constant PyNone \<notin> kw_value ` set (keywords_of node)"
  shows "node_should_be_modified node' = Inr False"
proof -
  from assms(2) have "func node' = func node"
    using modify_node_func [of node] by simp
  with assms(1) obtain img where img: "img = ''image_name'' \<or> img = ''image''"
    "version_args_needed node img = Inr True"
    "node_should_be_modified node' = version_args_needed node' img"
    using should_modify_needed by blast
  from needed_after_modify [OF img(1,2) assms(2,3)] img(3) show ?thesis
    by simp
qed

lemma modify_returns_iff:
  assumes "node_should_be_modified node = Inr True"
  shows "fst (modify_node node) = Inr () \<longleftrightarrow>
           \<not> (arg_value (keywords_of node) FRAMEWORK_ARG = Inr PyNone \<and>
              arg_value (keywords_of node) PY_ARG = Inl AttributeError)"
proof -
  obtain fw im where fi: "framework_from_node node = (fw, im)"
    by (cases "framework_from_node node")
  from assms obtain img where img: "version_args_needed node img = Inr True"
    using should_modify_needed [of node node] by auto
  from should_modify_framework_key [OF assms] fi obtain v where
    v: "map_of FRAMEWORK_DEFAULTS fw = Some v"
    using framework_key_lookup by fastforce
  then obtain r where r: "py_version_defaults fw (PyStr v) im = Inr r"
    using py_version_defaults_on_table by blast
  show ?thesis
    using img v r
    by (auto simp: modify_node_def version_args_needed_def fi arg_value_append_other
          arg_names_distinct split: sum.splits if_splits
          dest: arg_value_error)
qed

text \<open>
  With the literal \<^verbatim>\<open>None\<close> the modifier applies again without any exception: on
  \<^verbatim>\<open>MXNet(framework_version=None)\<close> the lookup of \<^verbatim>\<open>framework_version\<close> gives \<^verbatim>\<open>None\<close>
  before and after \<^verbatim>\<open>modify_node\<close>.
\<close>

lemma literal_None_modified_again:
  "node_should_be_modified
     \<lparr>func = Name ''MXNet'', args = [],
      keywords_of = [keyword (Some ''framework_version'') (Constant PyNone)]\<rparr> = Inr True \<and>
   node_should_be_modified
     (snd (modify_node
       \<lparr>func = Name ''MXNet'', args = [],
        keywords_of = [keyword (Some ''framework_version'') (Constant PyNone)]\<rparr>)) =
     Inr True"
  by (simp add: node_should_be_modified_def is_named_constructor_def FRAMEWORK_CLASSES_eq
        version_args_needed_def modify_node_def FRAMEWORK_ARG_def PY_ARG_def
        framework_from_node_def endswith_def py_version_defaults_simps defaults_table
        append_keyword_def)

text \<open>
  C2. After \<^verbatim>\<open>node_should_be_modified\<close> has returned \<^verbatim>\<open>True\<close>, \<^verbatim>\<open>modify_node\<close> returns
  unless the lookup of \<^verbatim>\<open>framework_version\<close> gave \<^verbatim>\<open>None\<close> and the \<^verbatim>\<open>py_version\<close> of the
  call is a computed expression (\<open>modify_returns_iff\<close>); and when it returns and no
  keyword of the call is the literal \<^verbatim>\<open>None\<close>, \<^verbatim>\<open>node_should_be_modified\<close> is \<^verbatim>\<open>False\<close>
  on the node it leaves (\<open>idempotent_when_modify_returns\<close>). On
  \<^verbatim>\<open>MXNet(py_version=py)\<close> the first call returns \<^verbatim>\<open>True\<close> without looking at
  \<^verbatim>\<open>py_version\<close>; \<^verbatim>\<open>modify_node\<close> appends \<^verbatim>\<open>framework_version="1.2.0"\<close> and then raises
  \<^verbatim>\<open>AttributeError\<close> on the lookup of \<^verbatim>\<open>py_version\<close>; and on the node so left
  \<^verbatim>\<open>node_should_be_modified\<close> raises too, instead of returning \<^verbatim>\<open>False\<close>.
\<close>

theorem modify_raises_after_should_modify:
  "node_should_be_modified
     \<lparr>func = Name ''MXNet'', args = [],
      keywords_of = [keyword (Some ''py_version'') (Name ''py'')]\<rparr> = Inr True \<and>
   modify_node
     \<lparr>func = Name ''MXNet'', args = [],
      keywords_of = [keyword (Some ''py_version'') (Name ''py'')]\<rparr> =
     (Inl AttributeError,
      \<lparr>func = Name ''MXNet'', args = [],
       keywords_of = [keyword (Some ''py_version'') (Name ''py''),
                      keyword (Some ''framework_version'') (Str ''1.2.0'')]\<rparr>) \<and>
   node_should_be_modified
     \<lparr>func = Name ''MXNet'', args = [],
      keywords_of = [keyword (Some ''py_version'') (Name ''py''),
                     keyword (Some ''framework_version'') (Str ''1.2.0'')]\<rparr> =
     Inl AttributeError"
  by (simp add: node_should_be_modified_def is_named_constructor_def FRAMEWORK_CLASSES_eq
        version_args_needed_def modify_node_def FRAMEWORK_ARG_def PY_ARG_def
        framework_from_node_def endswith_def py_version_defaults_simps defaults_table
        append_keyword_def)

end
